theory Spec2Isabelle
  imports Complex_Main "HOL-Library.Multiset" "HOL-Library.Char_ord" "HOL-Library.List_Lexorder"
begin

text \<open>
  A model of the feature pipeline of the AudioMNIST classifier: the methods
  \<open>zero_pad\<close>, \<open>feature_creation\<close>, \<open>normalize_features\<close>, \<open>add_gender\<close> and
  \<open>add_digit\<close> of the class \<open>DataProcessing\<close> (\<open>source/data_processing.py\<close>), and the
  method \<open>split\<close> of \<open>DataSplit\<close>. Exceptions are values of a sum type, the random
  draws are explicit arguments, and the dictionaries that the methods mutate live in a
  store.
\<close>

section \<open>Values, exceptions and dictionaries\<close>

text \<open>
  The exceptions the modelled code can raise. \<open>ValueError\<close> is what \<open>zero_pad\<close> raises
  for a signal that is too long (the specification calls it \<open>LengthExceededError\<close>) and
  what the builtins \<open>min\<close>, \<open>max\<close> and \<open>numpy.random.randint\<close> raise on an empty
  argument or range; \<open>ZeroDivisionError\<close> is raised by \<open>/\<close> on Python numbers (the
  specification's \<open>DegenerateVectorError\<close> has no other counterpart in the code).
\<close>

datatype error =
    ValueError
  | ZeroDivisionError
  | TypeError
  | KeyError
  | StatisticsError
  | UnboundLocalError
  | InvalidRatioError

text \<open>
  A numpy \<open>float64\<close> scalar: a finite value or one of the IEEE special values. Finite
  values are rationals and arithmetic on them is exact: rounding, overflow and the sign of
  zero are not modelled.
\<close>

datatype npfloat = Fin rat | PInf | NInf | NaN

text \<open>
  The values a feature dictionary holds: a Python number (\<open>int\<close> or finite \<open>float\<close>),
  a numpy scalar, or a string (the labels). The two kinds of number differ in division:
  Python numbers raise on a zero divisor, numpy scalars return \<open>nan\<close> or \<open>inf\<close>.
\<close>

datatype pyval = Num rat | Np npfloat | Str string

fun np_sub :: "npfloat \<Rightarrow> npfloat \<Rightarrow> npfloat" where
  "np_sub NaN _ = NaN"
| "np_sub _ NaN = NaN"
| "np_sub (Fin a) (Fin b) = Fin (a - b)"
| "np_sub PInf PInf = NaN"
| "np_sub NInf NInf = NaN"
| "np_sub PInf _ = PInf"
| "np_sub NInf _ = NInf"
| "np_sub (Fin a) PInf = NInf"
| "np_sub (Fin a) NInf = PInf"

fun np_div :: "npfloat \<Rightarrow> npfloat \<Rightarrow> npfloat" where
  "np_div NaN _ = NaN"
| "np_div _ NaN = NaN"
| "np_div (Fin a) (Fin b) =
     (if b \<noteq> 0 then Fin (a / b)
      else if 0 < a then PInf else if a < 0 then NInf else NaN)"
| "np_div (Fin a) _ = Fin 0"
| "np_div PInf (Fin b) = (if 0 \<le> b then PInf else NInf)"
| "np_div NInf (Fin b) = (if 0 \<le> b then NInf else PInf)"
| "np_div _ _ = NaN"

fun np_lt :: "npfloat \<Rightarrow> npfloat \<Rightarrow> bool" where
  "np_lt NaN _ = False"
| "np_lt _ NaN = False"
| "np_lt (Fin a) (Fin b) = (a < b)"
| "np_lt NInf NInf = False"
| "np_lt NInf _ = True"
| "np_lt _ NInf = False"
| "np_lt PInf _ = False"
| "np_lt _ PInf = True"

fun py_lt :: "pyval \<Rightarrow> pyval \<Rightarrow> error + bool" where
  "py_lt (Num a) (Num b) = Inr (a < b)"
| "py_lt (Num a) (Np y) = Inr (np_lt (Fin a) y)"
| "py_lt (Np x) (Num b) = Inr (np_lt x (Fin b))"
| "py_lt (Np x) (Np y) = Inr (np_lt x y)"
| "py_lt (Str s) (Str t) = Inr (s < t)"
| "py_lt _ _ = Inl TypeError"

fun py_sub :: "pyval \<Rightarrow> pyval \<Rightarrow> error + pyval" where
  "py_sub (Num a) (Num b) = Inr (Num (a - b))"
| "py_sub (Num a) (Np y) = Inr (Np (np_sub (Fin a) y))"
| "py_sub (Np x) (Num b) = Inr (Np (np_sub x (Fin b)))"
| "py_sub (Np x) (Np y) = Inr (Np (np_sub x y))"
| "py_sub _ _ = Inl TypeError"

fun py_div :: "pyval \<Rightarrow> pyval \<Rightarrow> error + pyval" where
  "py_div (Num a) (Num b) = (if b = 0 then Inl ZeroDivisionError else Inr (Num (a / b)))"
| "py_div (Num a) (Np y) = Inr (Np (np_div (Fin a) y))"
| "py_div (Np x) (Num b) = Inr (Np (np_div x (Fin b)))"
| "py_div (Np x) (Np y) = Inr (Np (np_div x y))"
| "py_div _ _ = Inl TypeError"

text \<open>
  The builtins \<open>min\<close> and \<open>max\<close>: the first item is the candidate, and a later item
  replaces it when it compares strictly smaller than the candidate (for \<open>max\<close>: strictly
  greater, that is, the candidate strictly smaller than the item); a comparison with
  \<open>nan\<close> is false, so a \<open>nan\<close> candidate stays; an empty iterable raises.
\<close>

fun min_loop :: "pyval \<Rightarrow> pyval list \<Rightarrow> error + pyval" where
  "min_loop m [] = Inr m"
| "min_loop m (x # xs) =
     (case py_lt x m of Inl e \<Rightarrow> Inl e | Inr b \<Rightarrow> min_loop (if b then x else m) xs)"

fun max_loop :: "pyval \<Rightarrow> pyval list \<Rightarrow> error + pyval" where
  "max_loop m [] = Inr m"
| "max_loop m (x # xs) =
     (case py_lt m x of Inl e \<Rightarrow> Inl e | Inr b \<Rightarrow> max_loop (if b then x else m) xs)"

fun py_min :: "pyval list \<Rightarrow> error + pyval" where
  "py_min [] = Inl ValueError"
| "py_min (x # xs) = min_loop x xs"

fun py_max :: "pyval list \<Rightarrow> error + pyval" where
  "py_max [] = Inl ValueError"
| "py_max (x # xs) = max_loop x xs"

text \<open>
  A \<open>dict\<close> keeps its keys in insertion order: an association list whose keys are
  distinct. Assigning to a key that is present replaces the value where it stands;
  assigning to a new key appends.
\<close>

type_synonym dict = "(string \<times> pyval) list"

definition dict_keys :: "dict \<Rightarrow> string list" where
  "dict_keys d = map fst d"

definition dict_values :: "dict \<Rightarrow> pyval list" where
  "dict_values d = map snd d"

fun dict_get :: "dict \<Rightarrow> string \<Rightarrow> error + pyval" where
  "dict_get [] k = Inl KeyError"
| "dict_get ((k', v) # d) k = (if k' = k then Inr v else dict_get d k)"

fun dict_set :: "dict \<Rightarrow> string \<Rightarrow> pyval \<Rightarrow> dict" where
  "dict_set [] k v = [(k, v)]"
| "dict_set ((k', v') # d) k v = (if k' = k then (k, v) # d else (k', v') # dict_set d k v)"

section \<open>normalize_features, add_gender, add_digit\<close>

text \<open>
  The right-hand side of the assignment in the loop of \<open>normalize_features\<close>,
  \<^verbatim>\<open>(features[key] - min(vals)) / (max(vals) - min(vals))\<close>, in Python's evaluation
  order, for the value \<open>v\<close> of the key and the current values \<open>vals\<close> of the dictionary.
\<close>

definition rescale :: "pyval \<Rightarrow> pyval list \<Rightarrow> error + pyval" where
  "rescale v vals =
     (case py_min vals of Inl e \<Rightarrow> Inl e | Inr mn \<Rightarrow>
     (case py_sub v mn of Inl e \<Rightarrow> Inl e | Inr a \<Rightarrow>
     (case py_max vals of Inl e \<Rightarrow> Inl e | Inr mx \<Rightarrow>
     (case py_min vals of Inl e \<Rightarrow> Inl e | Inr mn' \<Rightarrow>
     (case py_sub mx mn' of Inl e \<Rightarrow> Inl e | Inr b \<Rightarrow>
      py_div a b)))))"

text \<open>One iteration of the loop: \<^verbatim>\<open>features[key] = ...\<close> on the dictionary as it is now.\<close>

definition normalize_key :: "string \<Rightarrow> dict \<Rightarrow> error + dict" where
  "normalize_key key features =
     (case dict_get features key of Inl e \<Rightarrow> Inl e | Inr v \<Rightarrow>
     (case rescale v (dict_values features) of Inl e \<Rightarrow> Inl e | Inr q \<Rightarrow>
      Inr (dict_set features key q)))"

text \<open>
  The \<^verbatim>\<open>for key in feature_keys\<close> loop. The dictionary is mutated in place, so when an
  iteration raises, the assignments of the earlier iterations stay: the loop returns the
  exception, if any, together with the dictionary as it was left.
\<close>

fun normalize_loop :: "string list \<Rightarrow> dict \<Rightarrow> error option \<times> dict" where
  "normalize_loop [] features = (None, features)"
| "normalize_loop (key # feature_keys) features =
     (case normalize_key key features of
        Inl e \<Rightarrow> (Some e, features)
      | Inr features' \<Rightarrow> normalize_loop feature_keys features')"

text \<open>
  Dictionaries are objects: a store maps a reference to the dictionary it denotes, and a
  function that receives a dictionary receives its reference. The three functions below
  write to the store at the reference they are given and return that reference.
\<close>

type_synonym ref = nat
type_synonym store = "ref \<Rightarrow> dict"

definition empty_store :: store where
  "empty_store = (\<lambda>r. [])"

definition normalize_features :: "ref \<Rightarrow> store \<Rightarrow> (error + ref) \<times> store" where
  "normalize_features features s =
     (let feature_keys = dict_keys (s features);
          (exc, d) = normalize_loop feature_keys (s features)
      in (case exc of Some e \<Rightarrow> Inl e | None \<Rightarrow> Inr features, s(features := d)))"

definition add_gender :: "ref \<Rightarrow> string \<Rightarrow> store \<Rightarrow> ref \<times> store" where
  "add_gender features gender s =
     (features, s(features := dict_set (s features) ''gender'' (Str gender)))"

definition add_digit :: "ref \<Rightarrow> string \<Rightarrow> store \<Rightarrow> ref \<times> store" where
  "add_digit features digit s =
     (features, s(features := dict_set (s features) ''digit'' (Str digit)))"

section \<open>zero_pad\<close>

text \<open>
  \<^verbatim>\<open>numpy.random.randint(low, high)\<close> returns an integer of the half-open range from
  \<open>low\<close> to \<open>high\<close>, and raises when the range is empty. Which integer it
  returns depends on the state of the generator: that state is the parameter \<open>entropy\<close>,
  and every integer of the range is returned for some state.
\<close>

definition randint :: "int \<Rightarrow> int \<Rightarrow> nat \<Rightarrow> error + int" where
  "randint low high entropy =
     (if high \<le> low then Inl ValueError else Inr (low + int entropy mod (high - low)))"

text \<open>
  The slice assignment \<^verbatim>\<open>a[i:j] = data\<close> of a one-dimensional array, for
  non-negative \<open>i\<close> and \<open>j\<close>: the slice is clipped to the array, a value of the
  slice's length replaces it, a value of length one is broadcast over it, any other
  value raises.
\<close>

definition slice_assign :: "'a list \<Rightarrow> nat \<Rightarrow> nat \<Rightarrow> 'a list \<Rightarrow> error + 'a list" where
  "slice_assign a i j data =
     (let i' = min i (length a); j' = max i' (min j (length a)) in
      if length data = j' - i' then Inr (take i' a @ data @ drop j' a)
      else if length data = 1 then Inr (take i' a @ replicate (j' - i') (hd data) @ drop j' a)
      else Inl ValueError)"

text \<open>
  \<open>zero_pad\<close>, with the attribute \<open>self.target_sr\<close> and the state of the generator as
  arguments. The three branches are the source's; were none of them taken, the
  \<^verbatim>\<open>return\<close> would find \<open>embedded_data\<close> unassigned.
\<close>

definition zero_pad :: "int \<Rightarrow> nat \<Rightarrow> npfloat list \<Rightarrow> error + npfloat list" where
  "zero_pad target_sr entropy data =
     (let padding_length = target_sr in
      if int (length data) < padding_length then
        (let embedded_data = replicate (nat padding_length) (Fin 0) in
         (case randint 0 (padding_length - int (length data)) entropy of
            Inl e \<Rightarrow> Inl e
          | Inr offset \<Rightarrow>
              slice_assign embedded_data (nat offset) (nat (offset + int (length data))) data))
      else if int (length data) = padding_length then Inr data
      else if int (length data) > padding_length then Inl ValueError
      else Inl UnboundLocalError)"

section \<open>feature_creation\<close>

text \<open>
  The numerical routines of numpy, scipy and \<open>statistics\<close> that \<open>feature_creation\<close>
  calls are parameters of the model: the magnitude of one spectrum coefficient, and the
  mean, standard deviation, median, skewness and kurtosis of a non-empty sequence. What
  the routines do on an empty sequence is fixed below: \<open>numpy.mean\<close> and \<open>numpy.std\<close>
  return \<open>nan\<close>, \<open>statistics.median\<close> raises \<open>StatisticsError\<close>.
\<close>

record 'c numlib =
  np_abs :: "'c \<Rightarrow> npfloat"
  mean_of :: "npfloat list \<Rightarrow> npfloat"
  std_of :: "npfloat list \<Rightarrow> npfloat"
  median_of :: "npfloat list \<Rightarrow> npfloat"
  skew_of :: "npfloat list \<Rightarrow> npfloat"
  kurtosis_of :: "npfloat list \<Rightarrow> npfloat"

definition np_mean :: "'c numlib \<Rightarrow> npfloat list \<Rightarrow> npfloat" where
  "np_mean lib xs = (if xs = [] then NaN else mean_of lib xs)"

definition np_std :: "'c numlib \<Rightarrow> npfloat list \<Rightarrow> npfloat" where
  "np_std lib xs = (if xs = [] then NaN else std_of lib xs)"

definition statistics_median :: "'c numlib \<Rightarrow> npfloat list \<Rightarrow> error + npfloat" where
  "statistics_median lib xs = (if xs = [] then Inl StatisticsError else Inr (median_of lib xs))"

text \<open>\<^verbatim>\<open>numpy.diff\<close>: the differences of consecutive items, one item shorter.\<close>

definition np_diff :: "npfloat list \<Rightarrow> npfloat list" where
  "np_diff xs = map2 (\<lambda>a b. np_sub b a) xs (tl xs)"

definition feature_creation :: "'c numlib \<Rightarrow> 'c list \<Rightarrow> error + dict" where
  "feature_creation lib fft_data =
     (let fft_data = map (np_abs lib) fft_data;
          features = [];
          features = dict_set features ''mean'' (Np (np_mean lib fft_data));
          features = dict_set features ''std'' (Np (np_std lib fft_data)) in
      (case statistics_median lib fft_data of Inl e \<Rightarrow> Inl e | Inr med \<Rightarrow>
      (let features = dict_set features ''median'' (Np med) in
      (case py_max (map Np fft_data) of Inl e \<Rightarrow> Inl e | Inr mx \<Rightarrow>
      (let features = dict_set features ''max'' mx in
      (case py_min (map Np fft_data) of Inl e \<Rightarrow> Inl e | Inr mn \<Rightarrow>
      (let features = dict_set features ''min'' mn;
           features = dict_set features ''skewness'' (Np (skew_of lib fft_data));
           features = dict_set features ''kurtosis'' (Np (kurtosis_of lib fft_data)) in
      (case dict_get features ''max'' of Inl e \<Rightarrow> Inl e | Inr fmax \<Rightarrow>
      (case dict_get features ''min'' of Inl e \<Rightarrow> Inl e | Inr fmin \<Rightarrow>
      (case py_sub fmax fmin of Inl e \<Rightarrow> Inl e | Inr dfrange \<Rightarrow>
      (let features = dict_set features ''dfrange'' dfrange;
           features = dict_set features ''modindx''
             (Np (np_div (np_std lib (np_diff fft_data)) (np_mean lib (np_diff fft_data))))
       in Inr features)))))))))))"

text \<open>
  An instance of the library used to run the model on examples: the magnitude of a
  rational and the exact mean of finite values. The remaining statistics are irrational
  in general; the instance returns \<open>nan\<close> for them, and no example reads them.
\<close>

fun fin_sum :: "npfloat list \<Rightarrow> rat option" where
  "fin_sum [] = Some 0"
| "fin_sum (Fin a # xs) = (case fin_sum xs of None \<Rightarrow> None | Some t \<Rightarrow> Some (a + t))"
| "fin_sum (_ # xs) = None"

definition exact_mean :: "npfloat list \<Rightarrow> npfloat" where
  "exact_mean xs = (case fin_sum xs of None \<Rightarrow> NaN | Some t \<Rightarrow> Fin (t / of_nat (length xs)))"

definition example_lib :: "rat numlib" where
  "example_lib = \<lparr> np_abs = (\<lambda>x. Fin \<bar>x\<bar>), mean_of = exact_mean, std_of = (\<lambda>xs. NaN),
     median_of = (\<lambda>xs. NaN), skew_of = (\<lambda>xs. NaN), kurtosis_of = (\<lambda>xs. NaN) \<rparr>"

section \<open>DataSplit.split\<close>

text \<open>
  Modelled from the spec: the random shuffle of \<open>DataSplit.split\<close>, whose module
  \<open>src/data_split.py\<close> is not among the sources. The specification asks for a shuffle
  driven by a seedable source of randomness: the seed is the list of draws, each draw
  picks the next row among those that remain, and the rows left when the draws are used
  up keep their order.
\<close>

fun shuffle :: "nat list \<Rightarrow> 'a list \<Rightarrow> 'a list" where
  "shuffle [] xs = xs"
| "shuffle (r # seed) xs =
     (if xs = [] then []
      else xs ! (r mod length xs) #
           shuffle seed (take (r mod length xs) xs @ drop (Suc (r mod length xs)) xs))"

text \<open>
  Modelled from the spec: the \<open>round\<close> of the partition sizes, taken as Python's
  \<open>round\<close>, to the nearest integer with ties to the even one.
\<close>

definition py_round :: "rat \<Rightarrow> int" where
  "py_round q =
     (let f = \<lfloor>q\<rfloor>; r = q - of_int f in
      if r < 1 / 2 then f else if 1 / 2 < r then f + 1 else if even f then f else f + 1)"

text \<open>
  Modelled from the spec: \<open>DataSplit.split\<close>, of which only the call in \<open>main.py\<close> is
  among the sources. The specification describes it as a random shuffle followed by
  slicing, with the test and validation sizes the rounded fractions of the row count and
  the remainder going to training, and with \<open>InvalidRatioError\<close> when a ratio is
  outside the open unit interval or the two ratios sum to one or more. A row keeps its
  index label, as the row of a data frame does; the label column plays no part, the
  split not being stratified.
\<close>

definition split ::
  "nat list \<Rightarrow> 'row list \<Rightarrow> string \<Rightarrow> rat \<Rightarrow> rat \<Rightarrow>
     error + ((nat \<times> 'row) list \<times> (nat \<times> 'row) list \<times> (nat \<times> 'row) list)" where
  "split seed dataset label_column test_ratio val_ratio =
     (if \<not> (0 < test_ratio \<and> test_ratio < 1) \<or> \<not> (0 < val_ratio \<and> val_ratio < 1)
         \<or> 1 \<le> test_ratio + val_ratio
      then Inl InvalidRatioError
      else
        (let n = length dataset;
             rows = shuffle seed (zip [0..<n] dataset);
             n_test = nat (py_round (test_ratio * of_nat n));
             n_val = nat (py_round (val_ratio * of_nat n));
             test = take n_test rows;
             val = take n_val (drop n_test rows);
             train = drop (n_test + n_val) rows
         in Inr (train, val, test)))"

section \<open>Properties of normalize_features\<close>

subsection \<open>Dictionaries and the loop\<close>

lemma dict_get_mid:
  "k \<notin> fst ` set pre \<Longrightarrow> dict_get (pre @ (k, v) # post) k = Inr v"
  by (induction pre) auto

lemma dict_set_mid:
  "k \<notin> fst ` set pre \<Longrightarrow> dict_set (pre @ (k, v) # post) k q = pre @ (k, q) # post"
  by (induction pre) auto

lemma dict_get_set: "dict_get (dict_set d k v) k = Inr v"
  by (induction d) auto

lemma normalize_key_mid:
  assumes "k \<notin> fst ` set pre"
  shows "normalize_key k (pre @ (k, v) # post) =
     (case rescale v (map snd pre @ v # map snd post) of
        Inl e \<Rightarrow> Inl e | Inr q \<Rightarrow> Inr (pre @ (k, q) # post))"
  using assms
  by (simp add: normalize_key_def dict_get_mid dict_set_mid dict_values_def split: sum.splits)

lemma normalize_loop_mixture:
  assumes "distinct (map fst (pre @ post))"
      and "normalize_loop (map fst post) (pre @ post) = (None, d')"
  shows "\<exists>post'. d' = pre @ post' \<and> map fst post' = map fst post \<and>
           (\<forall>i < length post.
              rescale (snd (post ! i))
                (map snd pre @ take i (map snd post') @ drop i (map snd post))
              = Inr (snd (post' ! i)))"
  using assms
proof (induction post arbitrary: pre)
  case Nil
  then show ?case by simp
next
  case (Cons kv post)
  obtain k v where kv: "kv = (k, v)" by (cases kv)
  from Cons.prems(1) kv have notin: "k \<notin> fst ` set pre" by auto
  from Cons.prems(2) kv notin obtain q where
    q: "rescale v (map snd pre @ v # map snd post) = Inr q" and
    rest: "normalize_loop (map fst post) ((pre @ [(k, q)]) @ post) = (None, d')"
    by (auto simp: normalize_key_mid split: sum.splits)
  from Cons.prems(1) kv have dist: "distinct (map fst ((pre @ [(k, q)]) @ post))" by auto
  from Cons.IH[OF dist rest] obtain post' where
    p1: "d' = (pre @ [(k, q)]) @ post'" and p2: "map fst post' = map fst post" and
    p3: "\<forall>i < length post.
              rescale (snd (post ! i))
                (map snd (pre @ [(k, q)]) @ take i (map snd post') @ drop i (map snd post))
              = Inr (snd (post' ! i))" by blast
  have "\<forall>i < length (kv # post).
              rescale (snd ((kv # post) ! i))
                (map snd pre @ take i (map snd ((k, q) # post')) @ drop i (map snd (kv # post)))
              = Inr (snd (((k, q) # post') ! i))"
  proof (intro allI impI)
    fix i assume i: "i < length (kv # post)"
    show "rescale (snd ((kv # post) ! i))
                (map snd pre @ take i (map snd ((k, q) # post')) @ drop i (map snd (kv # post)))
              = Inr (snd (((k, q) # post') ! i))"
    proof (cases i)
      case 0
      then show ?thesis using q kv by simp
    next
      case (Suc j)
      then show ?thesis using p3 i by simp
    qed
  qed
  with p1 p2 kv show ?case by (intro exI[of _ "(k, q) # post'"]) simp
qed

lemmas normalize_eval =
  normalize_features_def dict_keys_def dict_values_def normalize_key_def rescale_def
  empty_store_def

text \<open>
  Claim C2. \<open>normalize_features\<close> rescales the keys one after the other in iteration
  order, on the dictionary as the earlier iterations left it: when it returns, the value
  stored for the key at position \<open>i\<close> is the rescaling of the original value against the
  values that the dictionary held at that moment, the first \<open>i\<close> of them already
  normalised and the others not yet. Only the first key is therefore rescaled against the
  minimum and maximum of the original vector: for the dictionary with \<open>mean = 10\<close> and
  \<open>std = 5\<close> the original values would send \<open>std\<close> to 0, and the function stores 1.
\<close>

theorem normalize_features_sequential:
  assumes "distinct (dict_keys (s features))"
      and "normalize_features features s = (Inr r, s')"
  shows "r = features
     \<and> dict_keys (s' features) = dict_keys (s features)
     \<and> (\<forall>i < length (s features).
          rescale (dict_values (s features) ! i)
            (take i (dict_values (s' features)) @ drop i (dict_values (s features)))
          = Inr (dict_values (s' features) ! i))
     \<and> (s features \<noteq> [] \<longrightarrow>
          rescale (hd (dict_values (s features))) (dict_values (s features))
          = Inr (hd (dict_values (s' features))))
     \<and> fst (normalize_features 0 (empty_store(0 := [(''mean'', Num 10), (''std'', Num 5)])))
          = Inr 0
     \<and> dict_get (snd (normalize_features 0
            (empty_store(0 := [(''mean'', Num 10), (''std'', Num 5)]))) 0) ''std''
          = Inr (Num 1)
     \<and> rescale (Num 5) [Num 10, Num 5] = Inr (Num 0)"
proof -
  obtain exc d where loop: "normalize_loop (dict_keys (s features)) (s features) = (exc, d)"
    by (cases "normalize_loop (dict_keys (s features)) (s features)")
  with assms(2) have exc: "exc = None" and r: "r = features" and s': "s' = s(features := d)"
    by (auto simp: normalize_features_def split: option.splits)
  from assms(1) have dist: "distinct (map fst ([] @ s features))"
    by (simp add: dict_keys_def)
  from loop exc have "normalize_loop (map fst (s features)) ([] @ s features) = (None, d)"
    by (simp add: dict_keys_def)
  from normalize_loop_mixture[OF dist this] have
    keys: "map fst d = map fst (s features)" and
    vals: "\<forall>i < length (s features).
              rescale (snd (s features ! i))
                (take i (map snd d) @ drop i (map snd (s features)))
              = Inr (snd (d ! i))"
    by auto
  from keys have len: "length d = length (s features)" by (metis length_map)
  have a: "\<forall>i < length (s features).
          rescale (dict_values (s features) ! i)
            (take i (dict_values (s' features)) @ drop i (dict_values (s features)))
          = Inr (dict_values (s' features) ! i)"
    using vals len by (simp add: dict_values_def s')
  have b: "s features \<noteq> [] \<longrightarrow>
          rescale (hd (dict_values (s features))) (dict_values (s features))
          = Inr (hd (dict_values (s' features)))"
  proof
    assume ne: "s features \<noteq> []"
    then have "0 < length (s features)" by simp
    with a have "rescale (dict_values (s features) ! 0)
            (take 0 (dict_values (s' features)) @ drop 0 (dict_values (s features)))
          = Inr (dict_values (s' features) ! 0)" by blast
    moreover from ne len have "d \<noteq> []" by auto
    ultimately show "rescale (hd (dict_values (s features))) (dict_values (s features))
          = Inr (hd (dict_values (s' features)))"
      using ne by (simp add: hd_conv_nth dict_values_def s')
  qed
  have c: "fst (normalize_features 0 (empty_store(0 := [(''mean'', Num 10), (''std'', Num 5)])))
          = Inr 0"
    by (simp add: normalize_eval)
  have d: "dict_get (snd (normalize_features 0
            (empty_store(0 := [(''mean'', Num 10), (''std'', Num 5)]))) 0) ''std''
          = Inr (Num 1)"
    by (simp add: normalize_eval)
  have e: "rescale (Num 5) [Num 10, Num 5] = Inr (Num 0)"
    by (simp add: rescale_def)
  from r keys a b c d e show ?thesis by (simp add: dict_keys_def s')
qed


theorem normalize_features_sequential_witness:
  "distinct (dict_keys
      ((empty_store(0 := [(''mean'', Num 4), (''std'', Num 10), (''median'', Num 0)])) 0))
   \<and> normalize_features 0
        (empty_store(0 := [(''mean'', Num 4), (''std'', Num 10), (''median'', Num 0)]))
      = (Inr 0,
         empty_store(0 := [(''mean'', Num (2 / 5)), (''std'', Num 1), (''median'', Num 0)]))
   \<and> rescale (Num 4) [Num 4, Num 10, Num 0] = Inr (Num (2 / 5))
   \<and> rescale (Num 10) [Num (2 / 5), Num 10, Num 0] = Inr (Num 1)
   \<and> rescale (Num 0) [Num (2 / 5), Num 1, Num 0] = Inr (Num 0)"
proof -
  let ?s = "empty_store(0 := [(''mean'', Num 4), (''std'', Num 10), (''median'', Num 0)])"
  let ?s' = "empty_store(0 := [(''mean'', Num (2 / 5)), (''std'', Num 1), (''median'', Num 0)])"
  have h1: "distinct (dict_keys (?s 0))"
    by (simp add: dict_keys_def)
  have h2: "normalize_features 0 ?s = (Inr 0, ?s')"
    by (simp add: normalize_eval)
  have all: "\<forall>i < length (?s 0).
          rescale (dict_values (?s 0) ! i)
            (take i (dict_values (?s' 0)) @ drop i (dict_values (?s 0)))
          = Inr (dict_values (?s' 0) ! i)"
    using normalize_features_sequential[OF h1 h2] by blast
  from all[rule_format, of 0]
  have k0: "rescale (Num 4) [Num 4, Num 10, Num 0] = Inr (Num (2 / 5))"
    by (simp add: dict_values_def)
  from all[rule_format, of "Suc 0"]
  have k1: "rescale (Num 10) [Num (2 / 5), Num 10, Num 0] = Inr (Num 1)"
    by (simp add: dict_values_def)
  from all[rule_format, of "Suc (Suc 0)"]
  have k2: "rescale (Num 0) [Num (2 / 5), Num 1, Num 0] = Inr (Num 0)"
    by (simp add: dict_values_def)
  from h1 h2 k0 k1 k2 show ?thesis by blast
qed

subsection \<open>Vectors that are not constant\<close>

text \<open>
  Claim C1. A vector whose values are not all equal should come back with minimum 0 and
  maximum 1 and with the order of its values kept. On the dictionary with \<open>mean = 10\<close>
  and \<open>std = 5\<close> the function returns 1 for both keys: the minimum of the result is 1,
  and two values that differed are equal. On the values 2, 16, 1, 0 it returns 1/8, 1, 1,
  0: the key that held 2 ends below the key that held 1. On \<open>mean = 3\<close> and
  \<open>std = 1\<close> the second iteration divides by zero, after the first has overwritten
  \<open>mean\<close>.
\<close>

theorem normalize_features_failing_input:
  "normalize_features 0 (empty_store(0 := [(''mean'', Num 10), (''std'', Num 5)]))
     = (Inr 0, empty_store(0 := [(''mean'', Num 1), (''std'', Num 1)]))
   \<and> py_min [Num 1, Num 1] = Inr (Num 1)
   \<and> normalize_features 0 (empty_store(0 :=
        [(''mean'', Num 2), (''std'', Num 16), (''median'', Num 1), (''min'', Num 0)]))
     = (Inr 0, empty_store(0 :=
        [(''mean'', Num (1 / 8)), (''std'', Num 1), (''median'', Num 1), (''min'', Num 0)]))
   \<and> normalize_features 0 (empty_store(0 := [(''mean'', Num 3), (''std'', Num 1)]))
     = (Inl ZeroDivisionError, empty_store(0 := [(''mean'', Num 1), (''std'', Num 1)]))"
  by (simp add: normalize_eval)

subsection \<open>Constant vectors\<close>

lemma min_loop_const: "set xs \<subseteq> {Num c} \<Longrightarrow> min_loop (Num c) xs = Inr (Num c)"
  by (induction xs) auto

lemma max_loop_const: "set xs \<subseteq> {Num c} \<Longrightarrow> max_loop (Num c) xs = Inr (Num c)"
  by (induction xs) auto

lemma rescale_const:
  assumes "set vals = {Num c}"
  shows "rescale (Num c) vals = Inl ZeroDivisionError"
proof -
  from assms obtain x xs where vals: "vals = x # xs" by (cases vals) auto
  with assms have x: "x = Num c" and xs: "set xs \<subseteq> {Num c}" by auto
  show ?thesis
    by (simp add: rescale_def vals x min_loop_const[OF xs] max_loop_const[OF xs])
qed

lemma normalize_features_py_const:
  assumes "set (dict_values (s features)) = {Num c}"
  shows "normalize_features features s = (Inl ZeroDivisionError, s)"
proof -
  from assms obtain k v d where d: "s features = (k, v) # d"
    by (cases "s features") (auto simp: dict_values_def)
  with assms have v: "v = Num c" by (auto simp: dict_values_def)
  have "rescale (Num c) (dict_values ((k, Num c) # d)) = Inl ZeroDivisionError"
    using assms d v by (intro rescale_const) simp
  then have "normalize_key k (s features) = Inl ZeroDivisionError"
    by (simp add: normalize_key_def d v)
  then have "normalize_loop (dict_keys (s features)) (s features)
               = (Some ZeroDivisionError, s features)"
    by (simp add: d dict_keys_def)
  then show ?thesis by (simp add: normalize_features_def)
qed

lemma np_lt_nan [simp]: "np_lt a NaN = False"
  by (cases a) auto

lemma np_sub_nan [simp]: "np_sub a NaN = NaN"
  by (cases a) auto

lemma min_loop_nan: "min_loop (Np NaN) (map Np xs) = Inr (Np NaN)"
  by (induction xs) auto

lemma max_loop_nan: "max_loop (Np NaN) (map Np xs) = Inr (Np NaN)"
  by (induction xs) auto

lemma rescale_nan: "rescale (Np v) (Np NaN # map Np xs) = Inr (Np NaN)"
  by (cases v) (simp_all add: rescale_def min_loop_nan max_loop_nan)

lemma min_loop_np_const:
  "set xs \<subseteq> {Np (Fin c)} \<Longrightarrow> min_loop (Np (Fin c)) xs = Inr (Np (Fin c))"
  by (induction xs) auto

lemma max_loop_np_const:
  "set xs \<subseteq> {Np (Fin c)} \<Longrightarrow> max_loop (Np (Fin c)) xs = Inr (Np (Fin c))"
  by (induction xs) auto

lemma rescale_np_const:
  assumes "set xs \<subseteq> {Np (Fin c)}"
  shows "rescale (Np (Fin c)) (Np (Fin c) # xs) = Inr (Np NaN)"
  by (simp add: rescale_def min_loop_np_const[OF assms] max_loop_np_const[OF assms])

lemma normalize_loop_nan:
  assumes "distinct (map fst (((k0, Np NaN) # pre) @ post))"
      and "\<forall>v \<in> snd ` set (pre @ post). \<exists>x. v = Np x"
  shows "normalize_loop (map fst post) (((k0, Np NaN) # pre) @ post)
           = (None, ((k0, Np NaN) # pre) @ map (\<lambda>kv. (fst kv, Np NaN)) post)"
  using assms
proof (induction post arbitrary: pre)
  case Nil
  then show ?case by simp
next
  case (Cons kv post)
  obtain k v where kv: "kv = (k, v)" by (cases kv)
  from Cons.prems(2) kv obtain x where v: "v = Np x" by auto
  from Cons.prems(2) have "\<forall>v \<in> set (map snd pre @ Np x # map snd post). \<exists>x. v = Np x"
    using kv v by auto
  then obtain xs where xs: "map snd pre @ Np x # map snd post = map Np xs"
    by (metis ex_map_conv)
  from Cons.prems(1) kv have notin: "k \<notin> fst ` set ((k0, Np NaN) # pre)" by auto
  have key: "normalize_key k (((k0, Np NaN) # pre) @ (k, v) # post)
               = Inr (((k0, Np NaN) # pre) @ (k, Np NaN) # post)"
  proof -
    have "normalize_key k (((k0, Np NaN) # pre) @ (k, v) # post) =
            (case rescale v (map snd ((k0, Np NaN) # pre) @ v # map snd post) of
               Inl e \<Rightarrow> Inl e | Inr q \<Rightarrow> Inr (((k0, Np NaN) # pre) @ (k, q) # post))"
      by (rule normalize_key_mid[OF notin])
    moreover have "rescale v (map snd ((k0, Np NaN) # pre) @ v # map snd post) = Inr (Np NaN)"
      using rescale_nan[of x xs] xs v by simp
    ultimately show ?thesis by simp
  qed
  from Cons.prems(1) kv
  have dist: "distinct (map fst (((k0, Np NaN) # (pre @ [(k, Np NaN)])) @ post))" by auto
  from Cons.prems(2) kv
  have nps: "\<forall>v \<in> snd ` set ((pre @ [(k, Np NaN)]) @ post). \<exists>x. v = Np x" by auto
  from Cons.IH[OF dist nps] key kv show ?case by simp
qed

lemma normalize_features_np_const:
  assumes "distinct (dict_keys (s features))"
      and "set (dict_values (s features)) = {Np (Fin c)}"
  shows "normalize_features features s = (Inr features, s(features := map (\<lambda>kv. (fst kv, Np NaN)) (s features)))"
proof -
  from assms(2) obtain k v d where d: "s features = (k, v) # d"
    by (cases "s features") (auto simp: dict_values_def)
  with assms(2) have v: "v = Np (Fin c)" and rest: "set (map snd d) \<subseteq> {Np (Fin c)}"
    by (auto simp: dict_values_def)
  have first: "normalize_key k ((k, v) # d) = Inr ((k, Np NaN) # d)"
    using rescale_np_const[OF rest] by (simp add: normalize_key_def v dict_values_def)
  from assms(1) d have dist: "distinct (map fst (((k, Np NaN) # []) @ d))"
    by (simp add: dict_keys_def)
  from rest have nps: "\<forall>v \<in> snd ` set ([] @ d). \<exists>x. v = Np x" by auto
  from normalize_loop_nan[OF dist nps]
  have "normalize_loop (map fst d) ((k, Np NaN) # d) = (None, (k, Np NaN) # map (\<lambda>kv. (fst kv, Np NaN)) d)"
    by simp
  with first have "normalize_loop (dict_keys (s features)) (s features)
                     = (None, map (\<lambda>kv. (fst kv, Np NaN)) (s features))"
    by (simp add: d dict_keys_def)
  then show ?thesis by (simp add: normalize_features_def)
qed

text \<open>
  Claim C3, as stated, fails: a vector of equal numpy scalars is returned with every
  value \<open>nan\<close> and nothing is raised, and the empty vector is returned as it is.
\<close>

theorem normalize_features_constant_counterexample:
  "normalize_features 0 (empty_store(0 := [(''mean'', Np (Fin 5)), (''std'', Np (Fin 5))]))
     = (Inr 0, empty_store(0 := [(''mean'', Np NaN), (''std'', Np NaN)]))
   \<and> normalize_features 0 (empty_store(0 := [])) = (Inr 0, empty_store(0 := []))"
  by (simp add: normalize_eval)

text \<open>
  Claim C3, amended. For every non-empty vector whose values are all equal: when the
  values are finite Python numbers (an \<open>int\<close>, or a \<open>float\<close> that is neither an
  infinity nor \<open>nan\<close>), \<open>normalize_features\<close> fails with \<open>ZeroDivisionError\<close>,
  raised by the unguarded division of the first iteration, and leaves the dictionary as
  it was; when they are finite numpy scalars, it raises nothing and returns the
  dictionary with every value replaced by \<open>nan\<close>. Equal infinite values are outside
  the statement: their difference is \<open>nan\<close>, not zero.
\<close>

theorem normalize_features_constant:
  "(set (dict_values (s features)) = {Num c} \<longrightarrow>
      normalize_features features s = (Inl ZeroDivisionError, s))
   \<and> (distinct (dict_keys (s features)) \<and> set (dict_values (s features)) = {Np (Fin c)} \<longrightarrow>
      normalize_features features s
        = (Inr features, s(features := map (\<lambda>kv. (fst kv, Np NaN)) (s features))))"
  using normalize_features_py_const[of s features c] normalize_features_np_const[of s features c]
  by blast

theorem normalize_features_constant_witness:
  "set (dict_values ((empty_store(0 := [(''mean'', Num 5), (''std'', Num 5)])) 0)) = {Num 5}
   \<and> normalize_features 0 (empty_store(0 := [(''mean'', Num 5), (''std'', Num 5)]))
       = (Inl ZeroDivisionError, empty_store(0 := [(''mean'', Num 5), (''std'', Num 5)]))
   \<and> distinct (dict_keys ((empty_store(0 := [(''mean'', Np (Fin 7)), (''std'', Np (Fin 7))])) 0))
   \<and> set (dict_values ((empty_store(0 := [(''mean'', Np (Fin 7)), (''std'', Np (Fin 7))])) 0))
       = {Np (Fin 7)}
   \<and> normalize_features 0 (empty_store(0 := [(''mean'', Np (Fin 7)), (''std'', Np (Fin 7))]))
       = (Inr 0, empty_store(0 := [(''mean'', Np NaN), (''std'', Np NaN)]))"
proof -
  let ?p = "empty_store(0 := [(''mean'', Num 5), (''std'', Num 5)])"
  let ?n = "empty_store(0 := [(''mean'', Np (Fin 7)), (''std'', Np (Fin 7))])"
  have h: "set (dict_values (?p 0)) = {Num 5}"
    by (simp add: dict_values_def)
  have g1: "distinct (dict_keys (?n 0))"
    by (simp add: dict_keys_def)
  have g2: "set (dict_values (?n 0)) = {Np (Fin 7)}"
    by (simp add: dict_values_def)
  from normalize_features_constant[of ?p 0 5] h
  have p: "normalize_features 0 ?p = (Inl ZeroDivisionError, ?p)" by blast
  from normalize_features_constant[of ?n 0 7] g1 g2
  have "normalize_features 0 ?n
          = (Inr 0, ?n(0 := map (\<lambda>kv. (fst kv, Np NaN)) (?n 0)))" by blast
  then have n: "normalize_features 0 ?n
          = (Inr 0, empty_store(0 := [(''mean'', Np NaN), (''std'', Np NaN)]))" by simp
  from h p g1 g2 n show ?thesis by blast
qed

section \<open>Properties of zero_pad\<close>

text \<open>
  Claim C4. A signal longer than the target length is rejected: \<open>zero_pad\<close> raises
  \<open>ValueError\<close> (the specification's \<open>LengthExceededError\<close>) whatever the state of the
  generator, and returns no buffer, truncated or otherwise.
\<close>

theorem zero_pad_too_long:
  "target_sr < int (length data) \<Longrightarrow> zero_pad target_sr entropy data = Inl ValueError"
  by (simp add: zero_pad_def)

theorem zero_pad_too_long_witness:
  "(2::int) < int (length [Fin 1, Fin 2, Fin 3])
   \<and> zero_pad 2 0 [Fin 1, Fin 2, Fin 3] = Inl ValueError"
  using zero_pad_too_long[of 2 "[Fin 1, Fin 2, Fin 3]" 0] by simp

lemma randint_in_range:
  assumes "low < high"
  shows "randint low high entropy = Inr (low + int entropy mod (high - low))"
    and "low \<le> low + int entropy mod (high - low)"
    and "low + int entropy mod (high - low) < high"
proof -
  from assms have pos: "0 < high - low" by simp
  show "randint low high entropy = Inr (low + int entropy mod (high - low))"
    using assms by (simp add: randint_def)
  show "low \<le> low + int entropy mod (high - low)"
    using pos_mod_sign[OF pos, of "int entropy"] by linarith
  show "low + int entropy mod (high - low) < high"
    using pos_mod_bound[OF pos, of "int entropy"] by linarith
qed

lemma slice_assign_inside:
  assumes "i + length data \<le> n"
  shows "slice_assign (replicate n z) i (i + length data) data
           = Inr (replicate i z @ data @ replicate (n - i - length data) z)"
  using assms by (simp add: slice_assign_def Let_def min_def max_def)

lemma zero_pad_embed:
  assumes "int (length data) < target_sr"
  shows "zero_pad target_sr entropy data =
           Inr (replicate (entropy mod (nat target_sr - length data)) (Fin 0) @ data @
                replicate (nat target_sr - entropy mod (nat target_sr - length data)
                             - length data) (Fin 0))"
proof -
  let ?k = "nat target_sr - length data"
  let ?o = "entropy mod ?k"
  from assms have k: "0 < ?k" by linarith
  from assms have kint: "target_sr - int (length data) = int ?k" by linarith
  have off: "int entropy mod (target_sr - int (length data)) = int ?o"
    by (simp add: kint zmod_int)
  from k have "?o < ?k" by simp
  then have inside: "?o + length data \<le> nat target_sr" by linarith
  have r: "randint 0 (target_sr - int (length data)) entropy = Inr (int ?o)"
    using assms off by (simp add: randint_def)
  have n2: "nat (int ?o + int (length data)) = ?o + length data"
    by (simp add: nat_add_distrib)
  show ?thesis
    using assms slice_assign_inside[OF inside, of "Fin 0"]
    by (simp add: zero_pad_def r n2 del: replicate_eq_replicate)
qed

text \<open>
  Claim C5. For a signal strictly shorter than the target length, \<open>zero_pad\<close> returns a
  buffer of exactly the target length, made of zeros, the signal unchanged, and zeros
  again; the offset of the signal is the integer drawn by \<open>randint\<close> from the range from
  0 up to, and excluding, the difference of the two lengths. The draw is uniform in this
  sense: the result depends on the state of the generator only through its residue
  modulo the size of the range, and the residues give the offsets of the range one for
  one, so that equally likely states give equally likely offsets.
\<close>

theorem zero_pad_shorter:
  assumes "int (length data) < target_sr"
  shows "(\<exists>offset padded.
           zero_pad target_sr entropy data = Inr padded
         \<and> offset < nat target_sr - length data
         \<and> length padded = nat target_sr
         \<and> padded = replicate offset (Fin 0) @ data @
                     replicate (nat target_sr - offset - length data) (Fin 0)
         \<and> take (length data) (drop offset padded) = data)
       \<and> (\<forall>offset < nat target_sr - length data.
           zero_pad target_sr offset data =
             Inr (replicate offset (Fin 0) @ data @
                  replicate (nat target_sr - offset - length data) (Fin 0)))
       \<and> zero_pad target_sr (entropy + (nat target_sr - length data)) data
           = zero_pad target_sr entropy data"
proof (intro conjI)
  let ?k = "nat target_sr - length data"
  let ?o = "entropy mod ?k"
  from assms have k: "0 < ?k" by linarith
  then have o: "?o < ?k" by simp
  then have len: "?o + length data + (nat target_sr - ?o - length data) = nat target_sr"
    by linarith
  show "\<exists>offset padded.
           zero_pad target_sr entropy data = Inr padded
         \<and> offset < nat target_sr - length data
         \<and> length padded = nat target_sr
         \<and> padded = replicate offset (Fin 0) @ data @
                     replicate (nat target_sr - offset - length data) (Fin 0)
         \<and> take (length data) (drop offset padded) = data"
    using zero_pad_embed[OF assms, of entropy] o len
    by (intro exI[of _ ?o] exI[of _ "replicate ?o (Fin 0) @ data @
                replicate (nat target_sr - ?o - length data) (Fin 0)"]) simp
  show "\<forall>offset < nat target_sr - length data.
           zero_pad target_sr offset data =
             Inr (replicate offset (Fin 0) @ data @
                  replicate (nat target_sr - offset - length data) (Fin 0))"
    using zero_pad_embed[OF assms] by simp
  show "zero_pad target_sr (entropy + (nat target_sr - length data)) data
           = zero_pad target_sr entropy data"
    by (simp add: zero_pad_embed[OF assms])
qed

theorem zero_pad_shorter_witness:
  "int (length [Fin 1, Fin 2]) < 5
   \<and> zero_pad 5 1 [Fin 1, Fin 2] = Inr [Fin 0, Fin 1, Fin 2, Fin 0, Fin 0]"
proof -
  have h: "int (length [Fin 1, Fin 2]) < 5" by simp
  have "\<forall>offset < nat 5 - length [Fin 1, Fin 2].
           zero_pad 5 offset [Fin 1, Fin 2] =
             Inr (replicate offset (Fin 0) @ [Fin 1, Fin 2] @
                  replicate (nat 5 - offset - length [Fin 1, Fin 2]) (Fin 0))"
    using zero_pad_shorter[OF h, of 0] by blast
  from this[rule_format, of 1] h show ?thesis
    by (simp add: numeral_eq_Suc)
qed

section \<open>In-place mutation\<close>

text \<open>
  Claim C10. \<open>add_gender\<close>, \<open>add_digit\<close> and \<open>normalize_features\<close> return the
  reference they were given, write the new dictionary at that reference and leave every
  other object of the store alone: whoever holds the reference sees the label that was
  added, and sees the values that the loop left in place of the original ones (for
  \<open>mean = 10\<close>, \<open>std = 5\<close> the caller reads \<open>mean = 1\<close> afterwards).
\<close>

theorem mutation_in_place:
  "fst (add_gender features gender s) = features
   \<and> snd (add_gender features gender s) features
        = dict_set (s features) ''gender'' (Str gender)
   \<and> dict_get (snd (add_gender features gender s) features) ''gender'' = Inr (Str gender)
   \<and> (\<forall>r. r \<noteq> features \<longrightarrow> snd (add_gender features gender s) r = s r)
   \<and> fst (add_digit features digit s) = features
   \<and> snd (add_digit features digit s) features
        = dict_set (s features) ''digit'' (Str digit)
   \<and> dict_get (snd (add_digit features digit s) features) ''digit'' = Inr (Str digit)
   \<and> (\<forall>r. r \<noteq> features \<longrightarrow> snd (add_digit features digit s) r = s r)
   \<and> (\<forall>r. fst (normalize_features features s) = Inr r \<longrightarrow> r = features)
   \<and> snd (normalize_features features s) features
        = snd (normalize_loop (dict_keys (s features)) (s features))
   \<and> (\<forall>r. r \<noteq> features \<longrightarrow> snd (normalize_features features s) r = s r)
   \<and> dict_get (snd (normalize_features 0
          (empty_store(0 := [(''mean'', Num 10), (''std'', Num 5)]))) 0) ''mean''
        = Inr (Num 1)"
proof -
  have g: "fst (add_gender features gender s) = features
   \<and> snd (add_gender features gender s) features
        = dict_set (s features) ''gender'' (Str gender)
   \<and> dict_get (snd (add_gender features gender s) features) ''gender'' = Inr (Str gender)
   \<and> (\<forall>r. r \<noteq> features \<longrightarrow> snd (add_gender features gender s) r = s r)"
    by (simp add: add_gender_def dict_get_set)
  have d: "fst (add_digit features digit s) = features
   \<and> snd (add_digit features digit s) features
        = dict_set (s features) ''digit'' (Str digit)
   \<and> dict_get (snd (add_digit features digit s) features) ''digit'' = Inr (Str digit)
   \<and> (\<forall>r. r \<noteq> features \<longrightarrow> snd (add_digit features digit s) r = s r)"
    by (simp add: add_digit_def dict_get_set)
  have n: "(\<forall>r. fst (normalize_features features s) = Inr r \<longrightarrow> r = features)
   \<and> snd (normalize_features features s) features
        = snd (normalize_loop (dict_keys (s features)) (s features))
   \<and> (\<forall>r. r \<noteq> features \<longrightarrow> snd (normalize_features features s) r = s r)"
    by (auto simp: normalize_features_def split: prod.splits option.splits)
  have e: "dict_get (snd (normalize_features 0
          (empty_store(0 := [(''mean'', Num 10), (''std'', Num 5)]))) 0) ''mean''
        = Inr (Num 1)"
    by (simp add: normalize_eval)
  from g d n e show ?thesis by blast
qed


theorem mutation_in_place_witness:
  "(1::nat) \<noteq> 0
   \<and> fst (normalize_features 0
        (empty_store(0 := [(''mean'', Num 10), (''std'', Num 5)], 1 := [(''mean'', Num 7)])))
       = Inr 0
   \<and> snd (normalize_features 0
        (empty_store(0 := [(''mean'', Num 10), (''std'', Num 5)], 1 := [(''mean'', Num 7)]))) 1
       = [(''mean'', Num 7)]
   \<and> snd (add_gender 0 ''male''
        (empty_store(0 := [(''mean'', Num 10), (''std'', Num 5)], 1 := [(''mean'', Num 7)]))) 1
       = [(''mean'', Num 7)]
   \<and> snd (add_digit 0 ''7''
        (empty_store(0 := [(''mean'', Num 10), (''std'', Num 5)], 1 := [(''mean'', Num 7)]))) 0
       = [(''mean'', Num 10), (''std'', Num 5), (''digit'', Str ''7'')]"
proof -
  let ?s = "empty_store(0 := [(''mean'', Num 10), (''std'', Num 5)], 1 := [(''mean'', Num 7)])"
  note m = mutation_in_place[of 0 "''male''" ?s "''7''"]
  have ne: "(1::nat) \<noteq> 0" by simp
  have ok: "fst (normalize_features 0 ?s) = Inr 0"
    by (simp add: normalize_eval)
  from m ne have n1: "snd (normalize_features 0 ?s) 1 = ?s 1" by blast
  from m ne have g1: "snd (add_gender 0 ''male'' ?s) 1 = ?s 1" by blast
  from m have d0: "snd (add_digit 0 ''7'' ?s) 0 = dict_set (?s 0) ''digit'' (Str ''7'')"
    by blast
  from ne ok n1 g1 d0 show ?thesis by simp
qed

section \<open>Properties of feature_creation\<close>

lemma max_loop_np: "\<exists>m'. max_loop (Np m) (map Np xs) = Inr (Np m')"
  by (induction xs arbitrary: m) auto

lemma min_loop_np: "\<exists>m'. min_loop (Np m) (map Np xs) = Inr (Np m')"
  by (induction xs arbitrary: m) auto

lemma py_max_np: "xs \<noteq> [] \<Longrightarrow> \<exists>m. py_max (map Np xs) = Inr (Np m)"
  by (cases xs) (simp_all add: max_loop_np)

lemma py_min_np: "xs \<noteq> [] \<Longrightarrow> \<exists>m. py_min (map Np xs) = Inr (Np m)"
  by (cases xs) (simp_all add: min_loop_np)

lemma feature_creation_nonempty:
  assumes "fft_data \<noteq> []"
  shows "\<exists>mx mn. feature_creation lib fft_data = Inr
    [(''mean'', Np (np_mean lib (map (np_abs lib) fft_data))),
     (''std'', Np (np_std lib (map (np_abs lib) fft_data))),
     (''median'', Np (median_of lib (map (np_abs lib) fft_data))),
     (''max'', Np mx),
     (''min'', Np mn),
     (''skewness'', Np (skew_of lib (map (np_abs lib) fft_data))),
     (''kurtosis'', Np (kurtosis_of lib (map (np_abs lib) fft_data))),
     (''dfrange'', Np (np_sub mx mn)),
     (''modindx'', Np (np_div (np_std lib (np_diff (map (np_abs lib) fft_data)))
                              (np_mean lib (np_diff (map (np_abs lib) fft_data)))))]"
proof -
  from assms have ne: "map (np_abs lib) fft_data \<noteq> []" by simp
  from py_max_np[OF ne] obtain mx where
    mx: "py_max (map Np (map (np_abs lib) fft_data)) = Inr (Np mx)" by blast
  from py_min_np[OF ne] obtain mn where
    mn: "py_min (map Np (map (np_abs lib) fft_data)) = Inr (Np mn)" by blast
  from ne have med: "statistics_median lib (map (np_abs lib) fft_data)
                       = Inr (median_of lib (map (np_abs lib) fft_data))"
    by (simp add: statistics_median_def)
  show ?thesis
    by (rule exI[of _ mx], rule exI[of _ mn])
       (simp add: feature_creation_def Let_def med mx mn del: map_map)
qed

text \<open>
  Claim C6. For every non-empty spectrum and whatever the library routines compute,
  \<open>feature_creation\<close> returns a dictionary whose keys are \<open>mean\<close>, \<open>std\<close>,
  \<open>median\<close>, \<open>max\<close>, \<open>min\<close>, \<open>skewness\<close>, \<open>kurtosis\<close>, \<open>dfrange\<close>,
  \<open>modindx\<close>, in this order.
\<close>

theorem feature_creation_keys:
  assumes "fft_data \<noteq> []"
  shows "\<exists>features. feature_creation lib fft_data = Inr features
     \<and> dict_keys features = [''mean'', ''std'', ''median'', ''max'', ''min'', ''skewness'',
                              ''kurtosis'', ''dfrange'', ''modindx'']"
proof -
  from feature_creation_nonempty[OF assms, of lib] obtain features where
    "feature_creation lib fft_data = Inr features" and
    "map fst features = [''mean'', ''std'', ''median'', ''max'', ''min'', ''skewness'',
                              ''kurtosis'', ''dfrange'', ''modindx'']"
    by auto
  then show ?thesis by (simp add: dict_keys_def)
qed

theorem feature_creation_keys_witness:
  "[1, 4, 1 :: rat] \<noteq> []
   \<and> map_sum id dict_keys (feature_creation example_lib [1, 4, 1])
       = Inr [''mean'', ''std'', ''median'', ''max'', ''min'', ''skewness'',
              ''kurtosis'', ''dfrange'', ''modindx'']"
proof -
  have h: "[1, 4, 1 :: rat] \<noteq> []" by simp
  from feature_creation_keys[OF h, of example_lib] h show ?thesis by auto
qed

lemma np_div_zero: "np_div x (Fin 0) = NaN \<or> np_div x (Fin 0) = PInf \<or> np_div x (Fin 0) = NInf"
  by (cases x) auto

text \<open>
  Claim C8. When the mean of the first differences of the magnitudes is exactly zero,
  \<open>feature_creation\<close> raises nothing and stores a sentinel for \<open>modindx\<close>: the
  division of two numpy scalars by zero gives \<open>nan\<close> or an infinity.
\<close>

theorem feature_creation_modindx:
  assumes "np_mean lib (np_diff (map (np_abs lib) fft_data)) = Fin 0"
  shows "\<exists>features. feature_creation lib fft_data = Inr features
     \<and> (dict_get features ''modindx'' = Inr (Np NaN)
        \<or> dict_get features ''modindx'' = Inr (Np PInf)
        \<or> dict_get features ''modindx'' = Inr (Np NInf))"
proof -
  from assms have "np_diff (map (np_abs lib) fft_data) \<noteq> []"
    by (auto simp: np_mean_def)
  then have ne: "fft_data \<noteq> []" by (auto simp: np_diff_def)
  from feature_creation_nonempty[OF ne, of lib] obtain mx mn where
    fc: "feature_creation lib fft_data = Inr
    [(''mean'', Np (np_mean lib (map (np_abs lib) fft_data))),
     (''std'', Np (np_std lib (map (np_abs lib) fft_data))),
     (''median'', Np (median_of lib (map (np_abs lib) fft_data))),
     (''max'', Np mx),
     (''min'', Np mn),
     (''skewness'', Np (skew_of lib (map (np_abs lib) fft_data))),
     (''kurtosis'', Np (kurtosis_of lib (map (np_abs lib) fft_data))),
     (''dfrange'', Np (np_sub mx mn)),
     (''modindx'', Np (np_div (np_std lib (np_diff (map (np_abs lib) fft_data)))
                              (np_mean lib (np_diff (map (np_abs lib) fft_data)))))]"
    by blast
  show ?thesis
    using np_div_zero[of "np_std lib (np_diff (map (np_abs lib) fft_data))"]
    by (simp add: fc assms)
qed


theorem feature_creation_modindx_witness:
  "np_mean example_lib (np_diff (map (np_abs example_lib) [1, 4, 1])) = Fin 0
   \<and> (case feature_creation example_lib [1, 4, 1] of
        Inl e \<Rightarrow> False
      | Inr features \<Rightarrow>
          dict_get features ''modindx'' \<in> {Inr (Np NaN), Inr (Np PInf), Inr (Np NInf)})"
proof -
  have h: "np_mean example_lib (np_diff (map (np_abs example_lib) [1, 4, 1])) = Fin 0"
    by (simp add: np_mean_def np_diff_def example_lib_def exact_mean_def)
  from feature_creation_modindx[OF h] h show ?thesis by auto
qed

section \<open>Properties of split\<close>

lemma mset_shuffle: "mset (shuffle seed xs) = mset xs"
proof (induction seed arbitrary: xs)
  case Nil
  then show ?case by simp
next
  case (Cons r seed)
  show ?case
  proof (cases "xs = []")
    case True
    then show ?thesis by simp
  next
    case False
    let ?i = "r mod length xs"
    from False have i: "?i < length xs" by simp
    have "mset (shuffle (r # seed) xs)
            = {#xs ! ?i#} + mset (take ?i xs @ drop (Suc ?i) xs)"
      using False Cons.IH by simp
    also have "\<dots> = mset (take ?i xs @ xs ! ?i # drop (Suc ?i) xs)" by simp
    also have "\<dots> = mset xs" using id_take_nth_drop[OF i] by simp
    finally show ?thesis .
  qed
qed

lemma length_shuffle: "length (shuffle seed xs) = length xs"
  using mset_shuffle[of seed xs] by (metis size_mset)

lemma distinct_shuffle: "distinct xs \<Longrightarrow> distinct (shuffle seed xs)"
  using mset_shuffle[of seed xs] by (metis mset_eq_imp_distinct_iff)

lemma py_round_nonneg: "0 \<le> q \<Longrightarrow> 0 \<le> py_round q"
proof -
  assume "0 \<le> q"
  then have "0 \<le> \<lfloor>q\<rfloor>" by simp
  then show ?thesis by (auto simp: py_round_def Let_def)
qed

lemma py_round_upper: "of_int (py_round q) \<le> q + 1 / 2"
proof -
  let ?f = "\<lfloor>q\<rfloor>"
  have lo: "(of_int ?f :: rat) \<le> q" by simp
  consider "q - of_int ?f < 1 / 2" | "1 / 2 < q - of_int ?f" | "q - of_int ?f = 1 / 2"
    by linarith
  then show ?thesis
  proof cases
    case 1
    then have eq: "py_round q = ?f" by (simp add: py_round_def Let_def)
    show ?thesis unfolding eq using lo by linarith
  next
    case 2
    then have eq: "py_round q = ?f + 1" by (simp add: py_round_def Let_def)
    show ?thesis unfolding eq of_int_add of_int_1 using 2 by linarith
  next
    case 3
    then have "py_round q = ?f \<or> py_round q = ?f + 1" by (simp add: py_round_def Let_def)
    then show ?thesis
    proof
      assume eq: "py_round q = ?f"
      show ?thesis unfolding eq using lo by linarith
    next
      assume eq: "py_round q = ?f + 1"
      show ?thesis unfolding eq of_int_add of_int_1 using 3 by linarith
    qed
  qed
qed

lemma split_sizes_fit:
  assumes "0 < t" "0 < v" "t + v < 1"
  shows "nat (py_round (t * of_nat n)) + nat (py_round (v * of_nat n)) \<le> n"
proof (cases "n = 0")
  case True
  then show ?thesis by (simp add: py_round_def)
next
  case False
  have "(of_int (py_round (t * of_nat n) + py_round (v * of_nat n)) :: rat)
          \<le> (t + v) * of_nat n + 1"
    using py_round_upper[of "t * of_nat n"] py_round_upper[of "v * of_nat n"]
    by (simp add: algebra_simps)
  also have "\<dots> < of_nat n + 1"
    using assms(3) False by simp
  finally have "(of_int (py_round (t * of_nat n) + py_round (v * of_nat n)) :: rat)
                  < of_int (int n + 1)" by simp
  then have "py_round (t * of_nat n) + py_round (v * of_nat n) < int n + 1"
    by (simp only: of_int_less_iff)
  moreover have "0 \<le> py_round (t * of_nat n)" "0 \<le> py_round (v * of_nat n)"
    using assms by (simp_all add: py_round_nonneg)
  ultimately show ?thesis by linarith
qed


lemma py_round_one: "py_round (1 / 10 * of_nat 10) = 1"
  by (simp add: py_round_def)

text \<open>
  Claim C7. For ratios that \<open>split\<close> accepts, the three partitions are pairwise disjoint,
  together they hold every indexed row of the data set exactly once, the validation and
  test partitions have the rounded fractions of the row count, and the training
  partition has the rest; ten rows with both ratios one tenth give 8, 1 and 1.
\<close>

theorem split_partition:
  assumes "0 < test_ratio" and "0 < val_ratio" and "test_ratio + val_ratio < 1"
  shows "\<exists>train val test.
      split seed dataset label_column test_ratio val_ratio = Inr (train, val, test)
    \<and> mset (train @ val @ test) = mset (zip [0..<length dataset] dataset)
    \<and> distinct (train @ val @ test)
    \<and> set train \<inter> set val = {} \<and> set train \<inter> set test = {} \<and> set val \<inter> set test = {}
    \<and> int (length val) = py_round (val_ratio * of_nat (length dataset))
    \<and> int (length test) = py_round (test_ratio * of_nat (length dataset))
    \<and> length train + length val + length test = length dataset
    \<and> (length dataset = 10 \<and> test_ratio = 1 / 10 \<and> val_ratio = 1 / 10 \<longrightarrow>
         length train = 8 \<and> length val = 1 \<and> length test = 1)"
proof -
  let ?n = "length dataset"
  let ?rows = "shuffle seed (zip [0..<?n] dataset)"
  let ?nt = "nat (py_round (test_ratio * of_nat ?n))"
  let ?nv = "nat (py_round (val_ratio * of_nat ?n))"
  let ?test = "take ?nt ?rows"
  let ?val = "take ?nv (drop ?nt ?rows)"
  let ?train = "drop (?nt + ?nv) ?rows"
  from assms have valid: "\<not> (\<not> (0 < test_ratio \<and> test_ratio < 1)
      \<or> \<not> (0 < val_ratio \<and> val_ratio < 1) \<or> 1 \<le> test_ratio + val_ratio)"
    by auto
  have res: "split seed dataset label_column test_ratio val_ratio = Inr (?train, ?val, ?test)"
    unfolding split_def Let_def using valid by (simp only: if_False)
  have len: "length ?rows = ?n" by (simp add: length_shuffle)
  have fit: "?nt + ?nv \<le> ?n" using assms by (rule split_sizes_fit)
  have parts: "?test @ ?val @ ?train = ?rows"
    by (metis add.commute append_take_drop_id drop_drop)
  have dist_rows: "distinct ?rows"
    by (intro distinct_shuffle distinct_zipI1) simp
  have m: "mset (?train @ ?val @ ?test) = mset (zip [0..<?n] dataset)"
  proof -
    have "mset (?train @ ?val @ ?test) = mset (?test @ ?val @ ?train)" by simp
    also have "\<dots> = mset ?rows" by (simp only: parts)
    finally show ?thesis by (simp add: mset_shuffle)
  qed
  have "distinct (?test @ ?val @ ?train)" using dist_rows by (simp only: parts)
  then have d: "distinct (?train @ ?val @ ?test)"
    and i1: "set ?train \<inter> set ?val = {}" and i2: "set ?train \<inter> set ?test = {}"
    and i3: "set ?val \<inter> set ?test = {}"
    by auto
  have lt: "length ?test = ?nt" using fit len by simp
  have lv: "length ?val = ?nv" using fit len by simp
  have ltr: "length ?train = ?n - (?nt + ?nv)" using len by simp
  have nnt: "0 \<le> py_round (test_ratio * of_nat ?n)"
    using assms(1) by (simp add: py_round_nonneg)
  have nnv: "0 \<le> py_round (val_ratio * of_nat ?n)"
    using assms(2) by (simp add: py_round_nonneg)
  have ilv: "int (length ?val) = py_round (val_ratio * of_nat ?n)"
    using lv nnv by simp
  have ilt: "int (length ?test) = py_round (test_ratio * of_nat ?n)"
    using lt nnt by simp
  have total: "length ?train + length ?val + length ?test = ?n"
    using lt lv ltr fit by linarith
  have boundary: "?n = 10 \<and> test_ratio = 1 / 10 \<and> val_ratio = 1 / 10 \<longrightarrow>
         length ?train = 8 \<and> length ?val = 1 \<and> length ?test = 1"
  proof
    assume b: "?n = 10 \<and> test_ratio = 1 / 10 \<and> val_ratio = 1 / 10"
    then have "py_round (test_ratio * of_nat ?n) = 1" "py_round (val_ratio * of_nat ?n) = 1"
      using py_round_one by simp_all
    with ilv ilt have "length ?val = 1" "length ?test = 1" by simp_all
    with total b show "length ?train = 8 \<and> length ?val = 1 \<and> length ?test = 1" by simp
  qed
  from res m d i1 i2 i3 ilv ilt total boundary show ?thesis by blast
qed

theorem split_partition_witness:
  "(0::rat) < 1 / 10 \<and> (1 / 10 + 1 / 10 :: rat) < 1
   \<and> (case split [3, 1, 4, 1, 5, 9, 2, 6, 5, 3]
               [''r0'', ''r1'', ''r2'', ''r3'', ''r4'', ''r5'', ''r6'', ''r7'', ''r8'', ''r9'']
               ''label'' (1 / 10) (1 / 10) of
        Inl e \<Rightarrow> False
      | Inr (train, val, test) \<Rightarrow>
          length train = 8 \<and> length val = 1 \<and> length test = 1
          \<and> distinct (train @ val @ test))"
proof -
  have h1: "(0::rat) < 1 / 10" by simp
  have h2: "(1 / 10 + 1 / 10 :: rat) < 1" by simp
  have n: "length [''r0'', ''r1'', ''r2'', ''r3'', ''r4'', ''r5'', ''r6'', ''r7'', ''r8'', ''r9'']
             = 10" by simp
  from split_partition[OF h1 h1 h2, of "[3, 1, 4, 1, 5, 9, 2, 6, 5, 3]"
      "[''r0'', ''r1'', ''r2'', ''r3'', ''r4'', ''r5'', ''r6'', ''r7'', ''r8'', ''r9'']"
      "''label''"]
  obtain train val test where
    "split [3, 1, 4, 1, 5, 9, 2, 6, 5, 3]
       [''r0'', ''r1'', ''r2'', ''r3'', ''r4'', ''r5'', ''r6'', ''r7'', ''r8'', ''r9'']
       ''label'' (1 / 10) (1 / 10) = Inr (train, val, test)"
    and "distinct (train @ val @ test)"
    and "length train = 8 \<and> length val = 1 \<and> length test = 1"
    using n by auto
  with h1 h2 show ?thesis by simp
qed

end
